theory Spec2Isabelle
  imports Main "HOL-Library.Sublist"
begin

section \<open>A shallow embedding of tag\_media.py\<close>

text \<open>
  The script probes a video file for audio-track titles, matches them (and the file and
  folder names) against the search patterns of a language profile, and on a match adds
  tag elements to the sidecar file \<open>movie.nfo\<close> of the video's directory.

  Every effect of the script is explicit here. The state is a record of the sidecar files
  on disk and of the two output streams. What the script obtains from outside itself
  (the \<open>ffprobe\<close> process, \<open>json.loads\<close>, ElementTree's parser and serialiser) is a
  record of functions that every definition takes as its first argument, so that each
  theorem holds for every behaviour of these collaborators.
\<close>

subsection \<open>Configuration and constants\<close>

record language_profile =
  readable_name :: string
  search_patterns :: "string list"
  tags_to_add :: "string list"

definition LANGUAGE_CONFIG :: "string \<rightharpoonup> language_profile" where
  "LANGUAGE_CONFIG =
     [''de'' \<mapsto> \<lparr>readable_name = ''German'',
                 search_patterns = [''German'', ''Deutsch'', ''DE'', ''De ''],
                 tags_to_add = [''German'', ''Deutsch'']\<rparr>]"

definition COLOR_GREEN :: string where
  "COLOR_GREEN = CHR 0x1B # ''[32m''"

definition COLOR_RED :: string where
  "COLOR_RED = CHR 0x1B # ''[31m''"

definition COLOR_ORANGE :: string where
  "COLOR_ORANGE = CHR 0x1B # ''[38;5;208m''"

definition COLOR_RESET :: string where
  "COLOR_RESET = CHR 0x1B # ''[0m''"

text \<open>The apostrophe, which the messages of the script put around names and titles.\<close>

definition apostrophe :: string where
  "apostrophe = [CHR 0x27]"

subsection \<open>Data\<close>

text \<open>
  An ElementTree element: its tag, its attributes, its text (Python's \<open>None\<close> when the
  element has none), its tail and its child elements in document order.
\<close>

datatype element =
  Element (tag: string) (attrib: "(string \<times> string) list") (elem_text: "string option")
    (tail: "string option") (children: "element list")

text \<open>
  One entry of the list under the key \<open>streams\<close> of the prober's JSON output: a
  dictionary with an optional \<open>index\<close> and an optional dictionary \<open>tags\<close> from tag
  names to strings. The JSON is typed after the output format of the prober.
\<close>

record stream =
  index :: "int option"
  tags :: "(string \<rightharpoonup> string) option"

text \<open>
  The dictionary that \<open>json.loads\<close> returns for the prober's output is represented by
  the value under its key \<open>streams\<close>, \<open>None\<close> when the key is absent.
\<close>

type_synonym probe_data = "stream list option"

text \<open>
  The three outcomes of \<open>subprocess.run(cmd, capture_output=True, text=True, check=True)\<close>
  that the script distinguishes: the executable is not found, the process exits with a
  non-zero status (the string is the text of the exception), and the process succeeds
  with the given standard output.
\<close>

datatype run_outcome =
  FileNotFoundError
  | CalledProcessError string
  | CompletedProcess string

text \<open>
  The outcomes of \<open>ET.parse\<close> on the content of a file: the root of the document; the
  exception \<open>ParseError\<close>, which is the one the script catches; and the two other
  exceptions the parser raises on content it cannot read, \<open>ValueError\<close> (the document
  declares a multi-byte encoding such as \<open>big5\<close>) and \<open>LookupError\<close> (it declares an
  encoding that does not exist).
\<close>

datatype parse_outcome =
  Parsed element
  | ParseError
  | Raised_ValueError
  | Raised_LookupError

text \<open>
  The collaborators. \<open>json_loads\<close> returns \<open>None\<close> where \<open>json.loads\<close> raises
  \<open>JSONDecodeError\<close>; \<open>ET_parse\<close> takes the content of a file and gives the outcome
  of \<open>ET.parse\<close> on it; \<open>ET_write\<close> is the serialisation that
  \<open>tree.write(path, encoding="utf-8", xml_declaration=True)\<close> stores. The type \<open>'c\<close>
  is the type of file contents.
\<close>

record 'c externals =
  subprocess_run :: "string list \<Rightarrow> run_outcome"
  json_loads :: "string \<Rightarrow> probe_data option"
  ET_parse :: "'c \<Rightarrow> parse_outcome"
  ET_write :: "element \<Rightarrow> 'c"

text \<open>
  The state: the regular files on disk by path, and the lines printed so far to the
  standard output and to the error stream.
\<close>

record 'c world =
  disk :: "string \<rightharpoonup> 'c"
  stdout :: "string list"
  stderr :: "string list"

definition print_out :: "string \<Rightarrow> 'c world \<Rightarrow> 'c world" where
  "print_out line w = w\<lparr>stdout := stdout w @ [line]\<rparr>"

definition print_err :: "string \<Rightarrow> 'c world \<Rightarrow> 'c world" where
  "print_err line w = w\<lparr>stderr := stderr w @ [line]\<rparr>"

text \<open>
  The exceptions that leave a function of the script. A call that raises gives the
  exception together with the state at that moment.
\<close>

datatype py_error = KeyError | ValueError | LookupError

type_synonym 'c raised = "py_error \<times> 'c world"

subsection \<open>Library functions the script calls\<close>

text \<open>Python's \<open>pattern in title\<close> on strings: \<open>pattern\<close> occurs as a contiguous run.\<close>

definition str_contains :: "string \<Rightarrow> string \<Rightarrow> bool" where
  "str_contains s pattern = sublist pattern s"

text \<open>
  \<open>os.path.basename\<close>, \<open>os.path.dirname\<close> and \<open>os.path.join\<close> of two components, as
  \<open>posixpath\<close> defines them: the basename is what follows the last slash; the dirname is
  what precedes it, the slash included, with trailing slashes then removed unless the
  whole of it consists of slashes.
\<close>

definition basename :: "string \<Rightarrow> string" where
  "basename p = rev (takeWhile (\<lambda>c. c \<noteq> CHR ''/'') (rev p))"

definition rstrip_sep :: "string \<Rightarrow> string" where
  "rstrip_sep s = rev (dropWhile (\<lambda>c. c = CHR ''/'') (rev s))"

definition dirname :: "string \<Rightarrow> string" where
  "dirname p =
     (let head = rev (dropWhile (\<lambda>c. c \<noteq> CHR ''/'') (rev p))
      in if head \<noteq> [] \<and> head \<noteq> replicate (length head) (CHR ''/'')
         then rstrip_sep head else head)"

definition path_join :: "string \<Rightarrow> string \<Rightarrow> string" where
  "path_join a b =
     (if b \<noteq> [] \<and> hd b = CHR ''/'' then b
      else if a = [] \<or> last a = CHR ''/'' then a @ b
      else a @ ''/'' @ b)"

text \<open>Python's \<open>str\<close> of an integer, for the debug line of a stream.\<close>

fun str_nat :: "nat \<Rightarrow> string" where
  "str_nat n =
     (if n < 10 then [char_of (48 + n)]
      else str_nat (n div 10) @ [char_of (48 + n mod 10)])"

declare str_nat.simps [simp del]

definition str_int :: "int \<Rightarrow> string" where
  "str_int i = (if i < 0 then CHR ''-'' # str_nat (nat (- i)) else str_nat (nat i))"

definition dict_get :: "('k \<rightharpoonup> 'v) \<Rightarrow> 'k \<Rightarrow> 'v \<Rightarrow> 'v" where
  "dict_get d k dflt = (case d k of None \<Rightarrow> dflt | Some v \<Rightarrow> v)"

definition dict_index :: "('k \<rightharpoonup> 'v) \<Rightarrow> 'k \<Rightarrow> py_error + 'v" where
  "dict_index d k = (case d k of None \<Rightarrow> Inl KeyError | Some v \<Rightarrow> Inr v)"

text \<open>\<open>ET.SubElement(root, name)\<close> followed by the assignment of the new child's text.\<close>

definition SubElement :: "element \<Rightarrow> string \<Rightarrow> string \<Rightarrow> element" where
  "SubElement root name txt =
     Element (tag root) (attrib root) (elem_text root) (tail root)
       (children root @ [Element name [] (Some txt) None []])"

subsection \<open>The prober\<close>

definition ffprobe_cmd :: "string \<Rightarrow> string list" where
  "ffprobe_cmd filepath =
     [''ffprobe'', ''-v'', ''error'',
      ''-select_streams'', ''a'',
      ''-show_entries'', ''stream=index:stream_tags=title'',
      ''-of'', ''json'',
      filepath]"

definition ffprobe_not_found_msg :: string where
  "ffprobe_not_found_msg =
     ''Error: '' @ apostrophe @ ''ffprobe'' @ apostrophe
       @ '' not found. Please install ffmpeg (which includes ffprobe) and ensure it is in your PATH.''"

definition ffprobe_audio_tracks ::
  "'c externals \<Rightarrow> string \<Rightarrow> 'c world \<Rightarrow> stream list \<times> 'c world" where
  "ffprobe_audio_tracks ext filepath w =
     (case subprocess_run ext (ffprobe_cmd filepath) of
        CompletedProcess out \<Rightarrow>
          (case json_loads ext out of
             Some data \<Rightarrow> (case data of Some ss \<Rightarrow> (ss, w) | None \<Rightarrow> ([], w))
           | None \<Rightarrow>
               ([], print_err (''Could not parse ffprobe output for '' @ filepath) w))
      | FileNotFoundError \<Rightarrow> ([], print_err ffprobe_not_found_msg w)
      | CalledProcessError e \<Rightarrow>
          ([], print_err (''ffprobe error on '' @ filepath @ '': '' @ e) w))"

subsection \<open>The sidecar updater\<close>

text \<open>
  Lines 60 to 71 of the source: the root the update works on. A file that does not exist,
  or on which the parser raises \<open>ParseError\<close>, gives a fresh element \<open>movie\<close>. The
  handler of line 64 names \<open>ET.ParseError\<close> only, so any other exception of the parser
  leaves the function.
\<close>

definition fresh_root :: element where
  "fresh_root = Element ''movie'' [] None None []"

definition load_root :: "'c externals \<Rightarrow> string \<Rightarrow> 'c world \<Rightarrow> py_error + element" where
  "load_root ext nfo_path w =
     (case disk w nfo_path of
        Some content \<Rightarrow>
          (case ET_parse ext content of
             Parsed root \<Rightarrow> Inr root
           | ParseError \<Rightarrow> Inr fresh_root
           | Raised_ValueError \<Rightarrow> Inl ValueError
           | Raised_LookupError \<Rightarrow> Inl LookupError)
      | None \<Rightarrow> Inr fresh_root)"

text \<open>Line 74: some immediate child of the root is a \<open>tag\<close> element with this text.\<close>

definition tag_exists :: "element \<Rightarrow> string \<Rightarrow> bool" where
  "tag_exists root tag_to_add =
     list_ex (\<lambda>child. tag child = ''tag'' \<and> elem_text child = Some tag_to_add) (children root)"

text \<open>
  The result of a call of \<open>update_nfo\<close>: the value it returns, the tree it holds in
  memory when it returns, and the state it leaves.
\<close>

record 'c update_result =
  returned :: bool
  root_after :: element
  world_after :: "'c world"

text \<open>Lines 73 to 89: the rest of \<open>update_nfo\<close>, on the root that lines 60 to 71 give.\<close>

definition update_loaded ::
  "'c externals \<Rightarrow> string \<Rightarrow> string \<Rightarrow> bool \<Rightarrow> bool \<Rightarrow> 'c world \<Rightarrow> element
     \<Rightarrow> 'c update_result" where
  "update_loaded ext nfo_path tag_to_add dry_run debug w root =
     (if tag_exists root tag_to_add then
        \<lparr>returned = False, root_after = root,
         world_after =
           (if debug then
              print_out (COLOR_GREEN @ ''Tag '' @ apostrophe @ tag_to_add @ apostrophe
                         @ '' already exists in '' @ nfo_path @ COLOR_RESET) w
            else w)\<rparr>
      else
        let root' = SubElement root ''tag'' tag_to_add in
        \<lparr>returned = True, root_after = root',
         world_after =
           (if dry_run then
              print_out (COLOR_ORANGE @ ''[DRY-RUN]'' @ COLOR_RESET @ '' '' @ COLOR_GREEN
                         @ ''Would update '' @ nfo_path @ '' with tag: '' @ tag_to_add
                         @ COLOR_RESET) w
            else
              print_out (COLOR_GREEN @ ''Updated '' @ nfo_path @ '' with tag: '' @ tag_to_add
                         @ COLOR_RESET)
                (w\<lparr>disk := (disk w)(nfo_path \<mapsto> ET_write ext root')\<rparr>))\<rparr>)"

text \<open>
  \<open>update_nfo\<close>: an exception of the load leaves the function, with the state as the
  call found it; otherwise the update runs on the loaded root.
\<close>

definition update_nfo ::
  "'c externals \<Rightarrow> string \<Rightarrow> string \<Rightarrow> bool \<Rightarrow> bool \<Rightarrow> 'c world
     \<Rightarrow> 'c raised + 'c update_result" where
  "update_nfo ext nfo_path tag_to_add dry_run debug w =
     (case load_root ext nfo_path w of
        Inl e \<Rightarrow> Inl (e, w)
      | Inr root \<Rightarrow> Inr (update_loaded ext nfo_path tag_to_add dry_run debug w root))"

subsection \<open>Classification and processing of one video file\<close>

text \<open>Lines 106 to 108: the title of a stream, empty when it has no title tag.\<close>

definition stream_title :: "stream \<Rightarrow> string" where
  "stream_title s =
     (case tags s of
        Some tg \<Rightarrow> (case tg ''title'' of Some t \<Rightarrow> t | None \<Rightarrow> [])
      | None \<Rightarrow> [])"

definition any_pattern_in :: "string list \<Rightarrow> string \<Rightarrow> bool" where
  "any_pattern_in patterns s = list_ex (\<lambda>pattern. str_contains s pattern) patterns"

text \<open>
  Lines 105 to 114: the loop over the streams, on the pair of \<open>found_lang\<close> and the state.
\<close>

fun check_streams ::
  "bool \<Rightarrow> string \<Rightarrow> string list \<Rightarrow> stream list \<Rightarrow> bool \<times> 'c world \<Rightarrow> bool \<times> 'c world" where
  "check_streams debug filepath patterns [] acc = acc"
| "check_streams debug filepath patterns (s # ss) (found_lang, w) =
     (let title = stream_title s;
          w1 = (if debug then
                  print_out (''File: '' @ filepath @ '' - Audio Track ''
                             @ (case index s of Some i \<Rightarrow> str_int i | None \<Rightarrow> ''?'')
                             @ '', Title: '' @ apostrophe @ title @ apostrophe) w
                else w)
      in if any_pattern_in patterns title then
           check_streams debug filepath patterns ss
             (True,
              if debug then
                print_out (COLOR_GREEN @ ''Found pattern in audio track title: ''
                           @ apostrophe @ title @ apostrophe @ COLOR_RESET) w1
              else w1)
         else check_streams debug filepath patterns ss (found_lang, w1))"

text \<open>
  Lines 101 to 128: the classifier. It returns \<open>found_lang\<close> as it stands before line 130,
  with the state after the debug output.
\<close>

definition classify ::
  "bool \<Rightarrow> string \<Rightarrow> string list \<Rightarrow> stream list \<Rightarrow> 'c world \<Rightarrow> bool \<times> 'c world" where
  "classify debug filepath patterns streams w =
     (let (found1, w1) = check_streams debug filepath patterns streams (False, w);
          file_name = basename filepath;
          (found2, w2) =
            (if any_pattern_in patterns file_name then
               (True,
                if debug then
                  print_out (COLOR_GREEN @ ''Found pattern in file name: ''
                             @ apostrophe @ file_name @ apostrophe @ COLOR_RESET) w1
                else w1)
             else (found1, w1));
          folder_name = basename (dirname filepath)
      in if any_pattern_in patterns folder_name then
           (True,
            if debug then
              print_out (COLOR_GREEN @ ''Found pattern in folder name: ''
                         @ apostrophe @ folder_name @ apostrophe @ COLOR_RESET) w2
            else w2)
         else (found2, w2))"

text \<open>
  Lines 132 and 133: one call of the updater for each tag, in order. An exception of a
  call ends the loop and leaves it.
\<close>

fun update_all ::
  "'c externals \<Rightarrow> string \<Rightarrow> string list \<Rightarrow> bool \<Rightarrow> bool \<Rightarrow> 'c world
     \<Rightarrow> 'c raised + 'c world" where
  "update_all ext nfo_path [] dry_run debug w = Inr w"
| "update_all ext nfo_path (t # ts) dry_run debug w =
     (case update_nfo ext nfo_path t dry_run debug w of
        Inl x \<Rightarrow> Inl x
      | Inr r \<Rightarrow> update_all ext nfo_path ts dry_run debug (world_after r))"

definition process_video_file ::
  "'c externals \<Rightarrow> string \<Rightarrow> bool \<Rightarrow> bool \<Rightarrow> string \<Rightarrow> 'c world
     \<Rightarrow> 'c raised + 'c world" where
  "process_video_file ext filepath dry_run debug language w =
     (case dict_index LANGUAGE_CONFIG ''de'' of
        Inl e \<Rightarrow> Inl (e, w)
      | Inr de_profile \<Rightarrow>
          (let config = dict_get LANGUAGE_CONFIG language de_profile;
               (streams, w0) = ffprobe_audio_tracks ext filepath w;
               (found_lang, w1) = classify debug filepath (search_patterns config) streams w0
           in if found_lang then
                (let nfo_path = path_join (dirname filepath) ''movie.nfo''
                 in case update_all ext nfo_path (tags_to_add config) dry_run debug w1 of
                      Inl x \<Rightarrow> Inl x
                    | Inr w2 \<Rightarrow>
                        Inr (print_out (COLOR_GREEN @ readable_name config
                                        @ '' media found in '' @ filepath @ COLOR_RESET) w2))
              else
                Inr (print_out (COLOR_RED @ ''No '' @ readable_name config
                                @ '' media found in '' @ filepath @ COLOR_RESET) w1)))"

subsection \<open>Example data\<close>

text \<open>
  An instance of the collaborators for concrete evaluations. The content of a file is
  represented by the outcome of parsing it: parsing reads the outcome off, and writing a
  document stores a file that parses to it. The prober's process has one fixed outcome
  and \<open>json.loads\<close> one fixed result.
\<close>

definition ideal_ext :: "run_outcome \<Rightarrow> probe_data option \<Rightarrow> parse_outcome externals" where
  "ideal_ext outcome data =
     \<lparr>subprocess_run = (\<lambda>cmd. outcome), json_loads = (\<lambda>out. data),
      ET_parse = (\<lambda>content. content), ET_write = Parsed\<rparr>"

definition tag_elem :: "string \<Rightarrow> element" where
  "tag_elem t = Element ''tag'' [] (Some t) None []"

text \<open>
  A disk with a well-formed sidecar in \<open>Movies/Foo\<close>, which has an attribute, a \<open>title\<close>
  child and the tag \<open>German\<close>; a sidecar in \<open>Movies/Bar\<close> on which the parser raises
  \<open>ParseError\<close>, as it does on an empty file or on \<open><movie>\<close> left unclosed; and a
  sidecar in \<open>Movies/Baz\<close> on which the parser raises \<open>ValueError\<close>, as it does on an
  unclosed \<open><movie>\<close> after an XML declaration with the encoding \<open>big5\<close>.
\<close>

definition example_world :: "parse_outcome world" where
  "example_world =
     \<lparr>disk = [''Movies/Foo/movie.nfo'' \<mapsto>
                Parsed (Element ''movie'' [(''id'', ''7'')] None None
                          [Element ''title'' [] (Some ''Foo'') None [], tag_elem ''German'']),
              ''Movies/Bar/movie.nfo'' \<mapsto> ParseError,
              ''Movies/Baz/movie.nfo'' \<mapsto> Raised_ValueError],
      stdout = [], stderr = []\<rparr>"

definition empty_world :: "parse_outcome world" where
  "empty_world = \<lparr>disk = Map.empty, stdout = [], stderr = []\<rparr>"

section \<open>Properties\<close>

subsection \<open>Facts about the updater\<close>

lemma tag_exists_SubElement: "tag_exists (SubElement root ''tag'' t) t"
  by (simp add: tag_exists_def SubElement_def)


lemma disk_print_out [simp]: "disk (print_out l w) = disk w"
  by (simp add: print_out_def)

lemma disk_print_err [simp]: "disk (print_err l w) = disk w"
  by (simp add: print_err_def)

lemma update_loaded_present:
  "tag_exists root t \<Longrightarrow>
     returned (update_loaded ext p t dry dbg w root) = False
   \<and> root_after (update_loaded ext p t dry dbg w root) = root
   \<and> disk (world_after (update_loaded ext p t dry dbg w root)) = disk w
   \<and> stderr (world_after (update_loaded ext p t dry dbg w root)) = stderr w"
  by (simp add: update_loaded_def print_out_def)

lemma update_loaded_absent:
  "\<not> tag_exists root t \<Longrightarrow>
     returned (update_loaded ext p t dry dbg w root) = True
   \<and> root_after (update_loaded ext p t dry dbg w root) = SubElement root ''tag'' t
   \<and> disk (world_after (update_loaded ext p t dry dbg w root)) =
       (if dry then disk w else (disk w)(p \<mapsto> ET_write ext (SubElement root ''tag'' t)))
   \<and> stderr (world_after (update_loaded ext p t dry dbg w root)) = stderr w"
  by (simp add: update_loaded_def print_out_def Let_def)

lemma root_after_update_loaded:
  "root_after (update_loaded ext p t dry dbg w root) =
     (if tag_exists root t then root else SubElement root ''tag'' t)"
  by (simp add: update_loaded_def Let_def)

lemma tag_exists_root_after:
  "tag_exists (root_after (update_loaded ext p t dry dbg w root)) t"
  by (simp add: root_after_update_loaded tag_exists_SubElement)

lemma update_loaded_dry_disk:
  "disk (world_after (update_loaded ext p t True dbg w root)) = disk w"
  by (simp add: update_loaded_def Let_def)

lemma update_nfo_loaded:
  "load_root ext p w = Inr root \<Longrightarrow>
     update_nfo ext p t dry dbg w = Inr (update_loaded ext p t dry dbg w root)"
  by (simp add: update_nfo_def)

lemma update_nfo_raises:
  "load_root ext p w = Inl e \<Longrightarrow> update_nfo ext p t dry dbg w = Inl (e, w)"
  by (simp add: update_nfo_def)

lemma update_nfo_InrD:
  "update_nfo ext p t dry dbg w = Inr r \<Longrightarrow>
     \<exists>root. load_root ext p w = Inr root \<and> r = update_loaded ext p t dry dbg w root"
  by (auto simp: update_nfo_def split: sum.splits)

lemma load_root_disk_cong:
  "disk w' p = disk w p \<Longrightarrow> load_root ext p w' = load_root ext p w"
  by (simp add: load_root_def)

text \<open>
  C1. Tag insertion is idempotent. When the root that \<open>update_nfo\<close> loads already has an
  immediate child \<open>tag\<close> whose text equals the tag to insert, the call returns false,
  leaves the tree in memory as loaded and writes nothing to disk. After any call that
  returns, the tag is among the tag children of the tree in memory. So a second insertion
  of the same tag, run on the state the first one left, is a no-op with the same document,
  given that the parser reads back the document the first call wrote. In a dry run, where
  nothing is written, the second insertion ends with the same document as the first.
\<close>

theorem update_nfo_idempotent:
  "(load_root ext p w = Inr root \<and> tag_exists root t \<longrightarrow>
      (\<exists>r. update_nfo ext p t dry dbg w = Inr r
         \<and> returned r = False \<and> root_after r = root \<and> disk (world_after r) = disk w))
   \<and> (update_nfo ext p t dry dbg w = Inr r0 \<longrightarrow> tag_exists (root_after r0) t)
   \<and> (update_nfo ext p t False dbg w = Inr r1
        \<and> ET_parse ext (ET_write ext (root_after r1)) = Parsed (root_after r1) \<longrightarrow>
       (\<exists>r2. update_nfo ext p t False dbg' (world_after r1) = Inr r2
          \<and> returned r2 = False \<and> root_after r2 = root_after r1
          \<and> disk (world_after r2) = disk (world_after r1)))
   \<and> (update_nfo ext p t True dbg w = Inr r3 \<longrightarrow>
       (\<exists>r4. update_nfo ext p t True dbg' (world_after r3) = Inr r4
          \<and> root_after r4 = root_after r3))"
proof (intro conjI impI)
  assume a: "load_root ext p w = Inr root \<and> tag_exists root t"
  show "\<exists>r. update_nfo ext p t dry dbg w = Inr r
         \<and> returned r = False \<and> root_after r = root \<and> disk (world_after r) = disk w"
    using a update_nfo_loaded [of ext p w root t dry dbg]
      update_loaded_present [of root t ext p dry dbg w] by simp
next
  assume "update_nfo ext p t dry dbg w = Inr r0"
  then show "tag_exists (root_after r0) t"
    using update_nfo_InrD [of ext p t dry dbg w r0] tag_exists_root_after by blast
next
  assume a: "update_nfo ext p t False dbg w = Inr r1
        \<and> ET_parse ext (ET_write ext (root_after r1)) = Parsed (root_after r1)"
  then obtain root where l: "load_root ext p w = Inr root"
    and r1: "r1 = update_loaded ext p t False dbg w root"
    using update_nfo_InrD [of ext p t False dbg w r1] by blast
  have ex1: "tag_exists (root_after r1) t" unfolding r1 by (rule tag_exists_root_after)
  have ld: "load_root ext p (world_after r1) = Inr (root_after r1)"
  proof (cases "tag_exists root t")
    case True
    then have "disk (world_after r1) = disk w" and "root_after r1 = root"
      using update_loaded_present [of root t ext p False dbg w] r1 by simp_all
    then show ?thesis
      using l load_root_disk_cong [of "world_after r1" p w ext] by simp
  next
    case False
    then have "disk (world_after r1) p = Some (ET_write ext (root_after r1))"
      using update_loaded_absent [of root t ext p False dbg w] r1 by simp
    then show ?thesis using a by (simp add: load_root_def)
  qed
  show "\<exists>r2. update_nfo ext p t False dbg' (world_after r1) = Inr r2
          \<and> returned r2 = False \<and> root_after r2 = root_after r1
          \<and> disk (world_after r2) = disk (world_after r1)"
    using update_nfo_loaded [OF ld, of t False dbg']
      update_loaded_present [OF ex1, of ext p False dbg' "world_after r1"] by simp
next
  assume a: "update_nfo ext p t True dbg w = Inr r3"
  then obtain root where l: "load_root ext p w = Inr root"
    and r3: "r3 = update_loaded ext p t True dbg w root"
    using update_nfo_InrD [of ext p t True dbg w r3] by blast
  have "disk (world_after r3) = disk w" unfolding r3 by (rule update_loaded_dry_disk)
  then have ld: "load_root ext p (world_after r3) = Inr root"
    using l load_root_disk_cong [of "world_after r3" p w ext] by simp
  show "\<exists>r4. update_nfo ext p t True dbg' (world_after r3) = Inr r4
          \<and> root_after r4 = root_after r3"
    using update_nfo_loaded [OF ld, of t True dbg'] by (simp add: r3 root_after_update_loaded)
qed

lemma example_Foo:
  "load_root (ideal_ext FileNotFoundError None) ''Movies/Foo/movie.nfo'' example_world
     = Inr (Element ''movie'' [(''id'', ''7'')] None None
              [Element ''title'' [] (Some ''Foo'') None [], tag_elem ''German''])"
  by (simp add: load_root_def ideal_ext_def example_world_def)

lemma example_Foo_tags:
  "tag_exists (Element ''movie'' [(''id'', ''7'')] None None
              [Element ''title'' [] (Some ''Foo'') None [], tag_elem ''German'']) ''German''"
  "\<not> tag_exists (Element ''movie'' [(''id'', ''7'')] None None
              [Element ''title'' [] (Some ''Foo'') None [], tag_elem ''German'']) ''Deutsch''"
  by (simp_all add: tag_exists_def tag_elem_def)

lemma ideal_ext_ET:
  "ET_parse (ideal_ext outcome data) c = c"
  "ET_write (ideal_ext outcome data) = Parsed"
  by (simp_all add: ideal_ext_def)

theorem update_nfo_idempotent_witness:
  "load_root (ideal_ext FileNotFoundError None) ''Movies/Foo/movie.nfo'' example_world
     = Inr (Element ''movie'' [(''id'', ''7'')] None None
              [Element ''title'' [] (Some ''Foo'') None [], tag_elem ''German''])
   \<and> tag_exists (Element ''movie'' [(''id'', ''7'')] None None
              [Element ''title'' [] (Some ''Foo'') None [], tag_elem ''German'']) ''German''
   \<and> (\<exists>r. update_nfo (ideal_ext FileNotFoundError None) ''Movies/Foo/movie.nfo'' ''German'' False False example_world = Inr r
        \<and> returned r = False \<and> disk (world_after r) = disk example_world)
   \<and> (\<exists>r1 r2. update_nfo (ideal_ext FileNotFoundError None) ''Movies/Foo/movie.nfo'' ''Deutsch'' False False example_world = Inr r1
        \<and> returned r1 = True
        \<and> ET_parse (ideal_ext FileNotFoundError None)
             (ET_write (ideal_ext FileNotFoundError None) (root_after r1)) = Parsed (root_after r1)
        \<and> update_nfo (ideal_ext FileNotFoundError None) ''Movies/Foo/movie.nfo'' ''Deutsch'' False False
             (world_after r1) = Inr r2
        \<and> returned r2 = False \<and> root_after r2 = root_after r1)"
proof -
  let ?E = "ideal_ext FileNotFoundError None"
  let ?root = "Element ''movie'' [(''id'', ''7'')] None None
              [Element ''title'' [] (Some ''Foo'') None [], tag_elem ''German'']"
  let ?r1 = "update_loaded ?E ''Movies/Foo/movie.nfo'' ''Deutsch'' False False example_world ?root"
  have u1: "update_nfo ?E ''Movies/Foo/movie.nfo'' ''Deutsch'' False False example_world = Inr ?r1"
    by (rule update_nfo_loaded [OF example_Foo])
  have t1: "returned ?r1 = True"
    using update_loaded_absent [OF example_Foo_tags(2)] by blast
  have rt: "ET_parse ?E (ET_write ?E (root_after ?r1)) = Parsed (root_after ?r1)"
    by (simp add: ideal_ext_ET)
  have a: "\<exists>r. update_nfo ?E ''Movies/Foo/movie.nfo'' ''German'' False False example_world = Inr r
         \<and> returned r = False \<and> root_after r = ?root \<and> disk (world_after r) = disk example_world"
    using update_nfo_idempotent [of ?E "''Movies/Foo/movie.nfo''" example_world ?root "''German''"
        False False] example_Foo example_Foo_tags(1) by blast
  have b: "\<exists>r2. update_nfo ?E ''Movies/Foo/movie.nfo'' ''Deutsch'' False False (world_after ?r1) = Inr r2
          \<and> returned r2 = False \<and> root_after r2 = root_after ?r1
          \<and> disk (world_after r2) = disk (world_after ?r1)"
    using update_nfo_idempotent [of ?E "''Movies/Foo/movie.nfo''" example_world ?root "''Deutsch''"
        False False _ ?r1 False] u1 rt by blast
  show ?thesis
    using example_Foo example_Foo_tags(1) a b u1 t1 rt by blast
qed




lemma update_all_dry_disk:
  "(case update_all ext p ts True dbg w of
      Inl (e, w') \<Rightarrow> disk w' = disk w
    | Inr w' \<Rightarrow> disk w' = disk w)"
proof (induction ts arbitrary: w)
  case Nil
  show ?case by simp
next
  case (Cons t ts)
  show ?case
  proof (cases "load_root ext p w")
    case (Inl e)
    then show ?thesis by (simp add: update_nfo_raises)
  next
    case (Inr root)
    have d: "disk (world_after (update_loaded ext p t True dbg w root)) = disk w"
      by (rule update_loaded_dry_disk)
    show ?thesis
      using Cons.IH [of "world_after (update_loaded ext p t True dbg w root)", unfolded d]
      by (simp add: update_nfo_loaded [OF Inr])
  qed
qed

lemma check_streams_disk:
  "disk (snd (check_streams dbg fp pats ss (f, w))) = disk w"
  by (induction ss arbitrary: f w) (simp_all add: Let_def)

lemma classify_disk: "disk (snd (classify dbg fp pats ss w)) = disk w"
proof -
  obtain f1 w1 where c: "check_streams dbg fp pats ss (False, w) = (f1, w1)"
    by (cases "check_streams dbg fp pats ss (False, w)")
  have "disk w1 = disk w" using check_streams_disk [of dbg fp pats ss False w] c by simp
  then show ?thesis by (simp add: classify_def c Let_def)
qed

lemma ffprobe_audio_tracks_disk: "disk (snd (ffprobe_audio_tracks ext fp w)) = disk w"
  by (simp add: ffprobe_audio_tracks_def split: run_outcome.splits option.splits)

lemma LANGUAGE_CONFIG_de:
  "dict_index LANGUAGE_CONFIG ''de'' =
     Inr \<lparr>readable_name = ''German'',
          search_patterns = [''German'', ''Deutsch'', ''DE'', ''De ''],
          tags_to_add = [''German'', ''Deutsch'']\<rparr>"
  by (simp add: dict_index_def LANGUAGE_CONFIG_def)

lemma process_video_file_dry_disk:
  "(case process_video_file ext fp True dbg lang w of
      Inl (e, w') \<Rightarrow> disk w' = disk w
    | Inr w' \<Rightarrow> disk w' = disk w)"
proof -
  obtain ss w0 where p: "ffprobe_audio_tracks ext fp w = (ss, w0)"
    by (cases "ffprobe_audio_tracks ext fp w")
  have d0: "disk w0 = disk w" using ffprobe_audio_tracks_disk [of ext fp w] p by simp
  let ?config = "dict_get LANGUAGE_CONFIG lang
      \<lparr>readable_name = ''German'', search_patterns = [''German'', ''Deutsch'', ''DE'', ''De ''],
       tags_to_add = [''German'', ''Deutsch'']\<rparr>"
  obtain f w1 where c: "classify dbg fp (search_patterns ?config) ss w0 = (f, w1)"
    by (cases "classify dbg fp (search_patterns ?config) ss w0")
  have d1: "disk w1 = disk w"
    using classify_disk [of dbg fp "search_patterns ?config" ss w0] c d0 by simp
  show ?thesis
    using update_all_dry_disk [where ext = ext and p = "path_join (dirname fp) ''movie.nfo''"
        and ts = "tags_to_add ?config" and dbg = dbg and w = w1, unfolded d1]
    by (simp add: process_video_file_def LANGUAGE_CONFIG_de p c Let_def d1 split: sum.splits prod.splits)
qed

text \<open>
  C3. A dry run writes nothing. With \<open>dry_run\<close> set, \<open>update_nfo\<close> leaves the disk as
  it found it, whatever the path, the tag and the disk are and whether it returns or
  raises (so it creates no sidecar either), and when the tag is absent from the loaded
  root it still returns true and prints the line that says which update it would make.
  The same holds of a whole dry run of \<open>process_video_file\<close>.
\<close>

theorem update_nfo_dry_run:
  "(case update_nfo ext p t True dbg w of
      Inl (e, w') \<Rightarrow> w' = w
    | Inr r \<Rightarrow> disk (world_after r) = disk w)
   \<and> (load_root ext p w = Inr root \<and> \<not> tag_exists root t \<longrightarrow>
        (\<exists>r. update_nfo ext p t True dbg w = Inr r
           \<and> returned r
           \<and> stdout (world_after r) =
               stdout w @ [COLOR_ORANGE @ ''[DRY-RUN]'' @ COLOR_RESET @ '' '' @ COLOR_GREEN
                           @ ''Would update '' @ p @ '' with tag: '' @ t @ COLOR_RESET]))
   \<and> (case process_video_file ext fp True dbg lang w of
        Inl (e, w') \<Rightarrow> disk w' = disk w
      | Inr w' \<Rightarrow> disk w' = disk w)"
proof (intro conjI impI)
  show "case update_nfo ext p t True dbg w of
      Inl (e, w') \<Rightarrow> w' = w
    | Inr r \<Rightarrow> disk (world_after r) = disk w"
    by (cases "load_root ext p w")
      (simp_all add: update_nfo_raises update_nfo_loaded update_loaded_dry_disk)
next
  assume a: "load_root ext p w = Inr root \<and> \<not> tag_exists root t"
  then have u: "update_nfo ext p t True dbg w = Inr (update_loaded ext p t True dbg w root)"
    using update_nfo_loaded by blast
  have "returned (update_loaded ext p t True dbg w root)
      \<and> stdout (world_after (update_loaded ext p t True dbg w root)) =
               stdout w @ [COLOR_ORANGE @ ''[DRY-RUN]'' @ COLOR_RESET @ '' '' @ COLOR_GREEN
                           @ ''Would update '' @ p @ '' with tag: '' @ t @ COLOR_RESET]"
    using a by (simp add: update_loaded_def Let_def print_out_def)
  then show "\<exists>r. update_nfo ext p t True dbg w = Inr r
           \<and> returned r
           \<and> stdout (world_after r) =
               stdout w @ [COLOR_ORANGE @ ''[DRY-RUN]'' @ COLOR_RESET @ '' '' @ COLOR_GREEN
                           @ ''Would update '' @ p @ '' with tag: '' @ t @ COLOR_RESET]"
    using u by blast
next
  show "case process_video_file ext fp True dbg lang w of
        Inl (e, w') \<Rightarrow> disk w' = disk w
      | Inr w' \<Rightarrow> disk w' = disk w"
    by (rule process_video_file_dry_disk)
qed

lemma example_New:
  "load_root (ideal_ext FileNotFoundError None) ''Movies/New/movie.nfo'' example_world = Inr fresh_root"
  "disk example_world ''Movies/New/movie.nfo'' = None"
  by (simp_all add: load_root_def example_world_def)

theorem update_nfo_dry_run_witness:
  "load_root (ideal_ext FileNotFoundError None) ''Movies/New/movie.nfo'' example_world = Inr fresh_root
   \<and> \<not> tag_exists fresh_root ''German''
   \<and> disk example_world ''Movies/New/movie.nfo'' = None
   \<and> (\<exists>r. update_nfo (ideal_ext FileNotFoundError None) ''Movies/New/movie.nfo'' ''German'' True False example_world = Inr r
        \<and> returned r
        \<and> disk (world_after r) ''Movies/New/movie.nfo'' = None
        \<and> length (stdout (world_after r)) = 1)"
proof -
  let ?E = "ideal_ext FileNotFoundError None"
  have h: "\<not> tag_exists fresh_root ''German''"
    by (simp add: fresh_root_def tag_exists_def)
  have s: "stdout example_world = []" by (simp add: example_world_def)
  note d = update_nfo_dry_run [where ext = ?E and p = "''Movies/New/movie.nfo''" and t = "''German''"
      and dbg = False and w = example_world and root = fresh_root and fp = "''a.mkv''" and lang = "''de''"]
  from d example_Foo example_New(1) h obtain r where
    u: "update_nfo ?E ''Movies/New/movie.nfo'' ''German'' True False example_world = Inr r"
    and r: "returned r"
    and o: "stdout (world_after r) =
               stdout example_world @ [COLOR_ORANGE @ ''[DRY-RUN]'' @ COLOR_RESET @ '' '' @ COLOR_GREEN
                           @ ''Would update '' @ ''Movies/New/movie.nfo'' @ '' with tag: '' @ ''German'' @ COLOR_RESET]"
    by blast
  have k: "disk (world_after r) = disk example_world" using d u by simp
  have "returned r \<and> disk (world_after r) ''Movies/New/movie.nfo'' = None
        \<and> length (stdout (world_after r)) = 1"
    using r k example_New(2) by (simp add: o s)
  then have e: "\<exists>r. update_nfo ?E ''Movies/New/movie.nfo'' ''German'' True False example_world = Inr r
        \<and> returned r
        \<and> disk (world_after r) ''Movies/New/movie.nfo'' = None
        \<and> length (stdout (world_after r)) = 1"
    using u by blast
  show ?thesis by (intro conjI example_New h e)
qed

lemma update_nfo_ParseError:
  assumes "disk w p = Some content" "ET_parse ext content = ParseError"
  shows "\<exists>r. update_nfo ext p t dry dbg w = Inr r
     \<and> returned r
     \<and> root_after r = Element ''movie'' [] None None [Element ''tag'' [] (Some t) None []]
     \<and> disk (world_after r) =
         (if dry then disk w
          else (disk w)(p \<mapsto> ET_write ext
                  (Element ''movie'' [] None None [Element ''tag'' [] (Some t) None []])))"
proof -
  have ld: "load_root ext p w = Inr (Element ''movie'' [] None None [])"
    using assms by (simp add: load_root_def fresh_root_def)
  have ne: "\<not> tag_exists (Element ''movie'' [] None None []) t" by (simp add: tag_exists_def)
  show ?thesis
    using update_nfo_loaded [OF ld, of t dry dbg] update_loaded_absent [OF ne, of ext p dry dbg w]
    by (simp add: SubElement_def)
qed

lemma update_nfo_other_exception:
  assumes "disk w p = Some content"
  shows "(ET_parse ext content = Raised_ValueError \<longrightarrow>
            update_nfo ext p t dry dbg w = Inl (ValueError, w))
       \<and> (ET_parse ext content = Raised_LookupError \<longrightarrow>
            update_nfo ext p t dry dbg w = Inl (LookupError, w))"
  using assms by (simp add: update_nfo_def load_root_def)

text \<open>
  C6. The recovery from an unparseable sidecar covers \<open>ParseError\<close> only. On the sidecar
  of \<open>Movies/Baz\<close>, whose content is not well-formed and makes the parser raise
  \<open>ValueError\<close>, \<open>update_nfo\<close> raises \<open>ValueError\<close> to its caller, in a hot run and in
  a dry run, and the state is as it was. On the sidecar of \<open>Movies/Bar\<close>, on which the
  parser raises \<open>ParseError\<close>, it returns, having started from a fresh element \<open>movie\<close>,
  with the document whose only child is the new tag.
\<close>

theorem update_nfo_malformed_raises:
  "disk example_world ''Movies/Baz/movie.nfo'' = Some Raised_ValueError
   \<and> ET_parse (ideal_ext FileNotFoundError None) Raised_ValueError = Raised_ValueError
   \<and> update_nfo (ideal_ext FileNotFoundError None) ''Movies/Baz/movie.nfo'' ''German'' False False
        example_world = Inl (ValueError, example_world)
   \<and> update_nfo (ideal_ext FileNotFoundError None) ''Movies/Baz/movie.nfo'' ''German'' True False
        example_world = Inl (ValueError, example_world)
   \<and> (\<exists>r. update_nfo (ideal_ext FileNotFoundError None) ''Movies/Bar/movie.nfo'' ''German'' False False
             example_world = Inr r
          \<and> root_after r = Element ''movie'' [] None None [Element ''tag'' [] (Some ''German'') None []])"
proof -
  let ?E = "ideal_ext FileNotFoundError None"
  have d: "disk example_world ''Movies/Baz/movie.nfo'' = Some Raised_ValueError"
    by (simp add: example_world_def)
  have e: "ET_parse ?E Raised_ValueError = Raised_ValueError" by (simp add: ideal_ext_ET)
  have b: "disk example_world ''Movies/Bar/movie.nfo'' = Some ParseError"
    by (simp add: example_world_def)
  have f: "ET_parse ?E ParseError = ParseError" by (simp add: ideal_ext_ET)
  have r: "\<exists>r. update_nfo ?E ''Movies/Bar/movie.nfo'' ''German'' False False example_world = Inr r
          \<and> root_after r = Element ''movie'' [] None None [Element ''tag'' [] (Some ''German'') None []]"
    using update_nfo_ParseError [OF b f, of "''German''" False False] by blast
  show ?thesis
    using d e r update_nfo_other_exception [OF d, of ?E "''German''" False False]
      update_nfo_other_exception [OF d, of ?E "''German''" True False]
    by blast
qed

text \<open>
  C8. Existing structure is preserved. When the sidecar parses to \<open>root\<close>, the call
  returns and the tree \<open>update_nfo\<close> ends with is \<open>root\<close> itself or \<open>root\<close> with
  exactly one \<open>tag\<close> child holding the tag's text appended: the root's tag, attributes
  and text are the same, and its former children are all there, unchanged and in order.
  The disk is either unchanged or holds the serialisation of that tree at the sidecar
  path.
\<close>

theorem update_nfo_preserves:
  "disk w p = Some content \<and> ET_parse ext content = Parsed root \<longrightarrow>
     (\<exists>r. update_nfo ext p t dry dbg w = Inr r
        \<and> (root_after r = root
            \<or> root_after r
                = Element (tag root) (attrib root) (elem_text root) (tail root)
                    (children root @ [Element ''tag'' [] (Some t) None []]))
        \<and> tag (root_after r) = tag root
        \<and> attrib (root_after r) = attrib root
        \<and> elem_text (root_after r) = elem_text root
        \<and> take (length (children root)) (children (root_after r)) = children root
        \<and> (disk (world_after r) = disk w
            \<or> disk (world_after r) = (disk w)(p \<mapsto> ET_write ext (root_after r))))"
proof
  assume a: "disk w p = Some content \<and> ET_parse ext content = Parsed root"
  then have ld: "load_root ext p w = Inr root" by (simp add: load_root_def)
  let ?r = "update_loaded ext p t dry dbg w root"
  have u: "update_nfo ext p t dry dbg w = Inr ?r" by (rule update_nfo_loaded [OF ld])
  have "(root_after ?r = root
            \<or> root_after ?r
                = Element (tag root) (attrib root) (elem_text root) (tail root)
                    (children root @ [Element ''tag'' [] (Some t) None []]))
        \<and> tag (root_after ?r) = tag root
        \<and> attrib (root_after ?r) = attrib root
        \<and> elem_text (root_after ?r) = elem_text root
        \<and> take (length (children root)) (children (root_after ?r)) = children root
        \<and> (disk (world_after ?r) = disk w
            \<or> disk (world_after ?r) = (disk w)(p \<mapsto> ET_write ext (root_after ?r)))"
  proof (cases "tag_exists root t")
    case True
    then show ?thesis using update_loaded_present [of root t ext p dry dbg w] by simp
  next
    case False
    then show ?thesis using update_loaded_absent [of root t ext p dry dbg w]
      by (simp add: SubElement_def)
  qed
  then show "\<exists>r. update_nfo ext p t dry dbg w = Inr r
        \<and> (root_after r = root
            \<or> root_after r
                = Element (tag root) (attrib root) (elem_text root) (tail root)
                    (children root @ [Element ''tag'' [] (Some t) None []]))
        \<and> tag (root_after r) = tag root
        \<and> attrib (root_after r) = attrib root
        \<and> elem_text (root_after r) = elem_text root
        \<and> take (length (children root)) (children (root_after r)) = children root
        \<and> (disk (world_after r) = disk w
            \<or> disk (world_after r) = (disk w)(p \<mapsto> ET_write ext (root_after r)))"
    using u by blast
qed

theorem update_nfo_preserves_witness:
  "disk example_world ''Movies/Foo/movie.nfo''
     = Some (Parsed (Element ''movie'' [(''id'', ''7'')] None None
                        [Element ''title'' [] (Some ''Foo'') None [], tag_elem ''German'']))
   \<and> ET_parse (ideal_ext FileNotFoundError None)
        (Parsed (Element ''movie'' [(''id'', ''7'')] None None
                        [Element ''title'' [] (Some ''Foo'') None [], tag_elem ''German'']))
     = Parsed (Element ''movie'' [(''id'', ''7'')] None None
                        [Element ''title'' [] (Some ''Foo'') None [], tag_elem ''German''])
   \<and> (\<exists>r. update_nfo (ideal_ext FileNotFoundError None) ''Movies/Foo/movie.nfo'' ''Deutsch'' False False example_world = Inr r
        \<and> attrib (root_after r) = [(''id'', ''7'')]
        \<and> take 2 (children (root_after r))
             = [Element ''title'' [] (Some ''Foo'') None [], tag_elem ''German''])"
proof -
  let ?E = "ideal_ext FileNotFoundError None"
  let ?root = "Element ''movie'' [(''id'', ''7'')] None None
                        [Element ''title'' [] (Some ''Foo'') None [], tag_elem ''German'']"
  have d: "disk example_world ''Movies/Foo/movie.nfo'' = Some (Parsed ?root)"
    by (simp add: example_world_def)
  have e: "ET_parse ?E (Parsed ?root) = Parsed ?root" by (simp add: ideal_ext_ET)
  from update_nfo_preserves [where w = example_world and p = "''Movies/Foo/movie.nfo''"
        and content = "Parsed ?root" and ext = ?E and root = ?root and t = "''Deutsch''"
        and dry = False and dbg = False] d e
  obtain r where u: "update_nfo ?E ''Movies/Foo/movie.nfo'' ''Deutsch'' False False example_world = Inr r"
    and a: "attrib (root_after r) = attrib ?root"
    and c: "take (length (children ?root)) (children (root_after r)) = children ?root"
    by blast
  have "attrib (root_after r) = [(''id'', ''7'')]
        \<and> take 2 (children (root_after r))
             = [Element ''title'' [] (Some ''Foo'') None [], tag_elem ''German'']"
    using a c by (simp add: numeral_2_eq_2)
  then have x: "\<exists>r. update_nfo ?E ''Movies/Foo/movie.nfo'' ''Deutsch'' False False example_world = Inr r
        \<and> attrib (root_after r) = [(''id'', ''7'')]
        \<and> take 2 (children (root_after r))
             = [Element ''title'' [] (Some ''Foo'') None [], tag_elem ''German'']"
    using u by blast
  show ?thesis by (intro conjI d e x)
qed

subsection \<open>The prober and the classifier\<close>



lemma any_pattern_in_iff:
  "any_pattern_in pats s \<longleftrightarrow> (\<exists>pattern \<in> set pats. sublist pattern s)"
  by (simp add: any_pattern_in_def str_contains_def list_ex_iff)

lemma check_streams_found:
  "fst (check_streams dbg fp pats ss (f, w)) \<longleftrightarrow>
     f \<or> (\<exists>s \<in> set ss. any_pattern_in pats (stream_title s))"
  by (induction ss arbitrary: f w) (simp_all add: Let_def)

lemma classify_found:
  "fst (classify dbg fp pats ss w) \<longleftrightarrow>
     (\<exists>s \<in> set ss. any_pattern_in pats (stream_title s))
     \<or> any_pattern_in pats (basename fp)
     \<or> any_pattern_in pats (basename (dirname fp))"
proof -
  obtain f1 w1 where c: "check_streams dbg fp pats ss (False, w) = (f1, w1)"
    by (cases "check_streams dbg fp pats ss (False, w)")
  have "f1 \<longleftrightarrow> (\<exists>s \<in> set ss. any_pattern_in pats (stream_title s))"
    using check_streams_found [of dbg fp pats ss False w] c by simp
  then show ?thesis by (simp add: classify_def c Let_def)
qed

lemma stream_title_absent:
  "tags s = None \<or> (\<exists>tg. tags s = Some tg \<and> tg ''title'' = None) \<Longrightarrow> stream_title s = []"
  by (auto simp: stream_title_def)

text \<open>
  C4. The classifier's decision is the disjunction of exact substring checks: it is
  positive exactly when some pattern occurs as a contiguous run in the title of some
  stream, in the file name or in the folder name. A stream without a title tag has the
  empty title, which no non-empty pattern occurs in, so it matches no profile of the
  configuration.
\<close>

theorem classify_decision:
  "(fst (classify dbg fp pats ss w) \<longleftrightarrow>
      (\<exists>pattern \<in> set pats.
         (\<exists>s \<in> set ss. sublist pattern (stream_title s))
         \<or> sublist pattern (basename fp)
         \<or> sublist pattern (basename (dirname fp))))
   \<and> (tags s = None \<or> (\<exists>tg. tags s = Some tg \<and> tg ''title'' = None) \<longrightarrow>
        stream_title s = []
        \<and> ([] \<notin> set pats \<longrightarrow> \<not> any_pattern_in pats (stream_title s))
        \<and> (\<forall>language profile. LANGUAGE_CONFIG language = Some profile \<longrightarrow>
              \<not> any_pattern_in (search_patterns profile) (stream_title s)))"
proof (intro conjI impI)
  show "fst (classify dbg fp pats ss w) \<longleftrightarrow>
      (\<exists>pattern \<in> set pats.
         (\<exists>s \<in> set ss. sublist pattern (stream_title s))
         \<or> sublist pattern (basename fp)
         \<or> sublist pattern (basename (dirname fp)))"
    unfolding classify_found any_pattern_in_iff by blast
next
  assume a: "tags s = None \<or> (\<exists>tg. tags s = Some tg \<and> tg ''title'' = None)"
  then show t: "stream_title s = []" by (rule stream_title_absent)
  show "\<forall>language profile. LANGUAGE_CONFIG language = Some profile \<longrightarrow>
              \<not> any_pattern_in (search_patterns profile) (stream_title s)"
    by (auto simp: t any_pattern_in_iff LANGUAGE_CONFIG_def split: if_splits)
  assume "[] \<notin> set pats"
  then show "\<not> any_pattern_in pats (stream_title s)"
    by (auto simp: t any_pattern_in_iff)
qed

theorem classify_decision_witness:
  "tags \<lparr>index = Some 0, tags = None\<rparr> = None
   \<and> stream_title \<lparr>index = Some 0, tags = None\<rparr> = []
   \<and> [] \<notin> set [''German'', ''Deutsch'', ''DE'', ''De '']
   \<and> \<not> any_pattern_in [''German'', ''Deutsch'', ''DE'', ''De ''] (stream_title \<lparr>index = Some 0, tags = None\<rparr>)
   \<and> sublist ''Deutsch'' (stream_title \<lparr>index = Some 1, tags = Some [''title'' \<mapsto> ''Deutsch 5.1'']\<rparr>)
   \<and> fst (classify False ''Movies/Foo/Movie.mkv'' [''German'', ''Deutsch'', ''DE'', ''De '']
            [\<lparr>index = Some 0, tags = None\<rparr>, \<lparr>index = Some 1, tags = Some [''title'' \<mapsto> ''Deutsch 5.1'']\<rparr>]
            empty_world)"
proof -
  have t: "stream_title \<lparr>index = Some 1, tags = Some [''title'' \<mapsto> ''Deutsch 5.1'']\<rparr> = ''Deutsch 5.1''"
    by (simp add: stream_title_def)
  have s: "sublist ''Deutsch'' ''Deutsch 5.1''" by code_simp
  have h1: "tags \<lparr>index = Some 0, tags = None\<rparr> = None
      \<or> (\<exists>tg. tags \<lparr>index = Some 0, tags = None\<rparr> = Some tg \<and> tg ''title'' = None)"
    by simp
  have h2: "[] \<notin> set [''German'', ''Deutsch'', ''DE'', ''De '']" by simp
  have h3: "\<exists>pattern \<in> set [''German'', ''Deutsch'', ''DE'', ''De ''].
         (\<exists>s \<in> set [\<lparr>index = Some 0, tags = None\<rparr>, \<lparr>index = Some 1, tags = Some [''title'' \<mapsto> ''Deutsch 5.1'']\<rparr>].
            sublist pattern (stream_title s))
         \<or> sublist pattern (basename ''Movies/Foo/Movie.mkv'')
         \<or> sublist pattern (basename (dirname ''Movies/Foo/Movie.mkv''))"
    using s t by simp
  note cd = classify_decision [of False "''Movies/Foo/Movie.mkv''" "[''German'', ''Deutsch'', ''DE'', ''De '']"
        "[\<lparr>index = Some 0, tags = None\<rparr>, \<lparr>index = Some 1, tags = Some [''title'' \<mapsto> ''Deutsch 5.1'']\<rparr>]"
        empty_world "\<lparr>index = Some 0, tags = None\<rparr>"]
  have c: "fst (classify False ''Movies/Foo/Movie.mkv'' [''German'', ''Deutsch'', ''DE'', ''De '']
            [\<lparr>index = Some 0, tags = None\<rparr>, \<lparr>index = Some 1, tags = Some [''title'' \<mapsto> ''Deutsch 5.1'']\<rparr>]
            empty_world)"
    by (rule iffD2 [OF cd [THEN conjunct1] h3])
  have n: "stream_title \<lparr>index = Some 0, tags = None\<rparr> = []
     \<and> \<not> any_pattern_in [''German'', ''Deutsch'', ''DE'', ''De ''] (stream_title \<lparr>index = Some 0, tags = None\<rparr>)"
    using cd [THEN conjunct2] h1 h2 by blast
  have h0: "tags \<lparr>index = Some 0, tags = None\<rparr> = None" by simp
  have s': "sublist ''Deutsch'' (stream_title \<lparr>index = Some 1, tags = Some [''title'' \<mapsto> ''Deutsch 5.1'']\<rparr>)"
    unfolding t by (rule s)
  from h0 n h2 s' c show ?thesis by (elim conjE) (intro conjI; assumption)
qed

subsection \<open>Facts about paths\<close>

lemma basename_append:
  assumes "CHR ''/'' \<notin> set f"
  shows "basename (xs @ ''/'' @ f) = f"
proof -
  have "\<forall>c \<in> set (rev f). c \<noteq> CHR ''/''" using assms by auto
  then have a: "takeWhile (\<lambda>c. c \<noteq> CHR ''/'') (rev f) = rev f"
    by simp
  have b: "takeWhile (\<lambda>c. c \<noteq> CHR ''/'') (rev f @ CHR ''/'' # rev xs)
      = takeWhile (\<lambda>c. c \<noteq> CHR ''/'') (rev f)"
    by (simp add: takeWhile_tail)
  show ?thesis by (simp add: basename_def a b)
qed

lemma dirname_head:
  assumes "CHR ''/'' \<notin> set f"
  shows "rev (dropWhile (\<lambda>c. c \<noteq> CHR ''/'') (rev (xs @ ''/'' @ f))) = xs @ ''/''"
proof -
  have "\<And>c. c \<in> set (rev f) \<Longrightarrow> c \<noteq> CHR ''/''" using assms by auto
  then have "dropWhile (\<lambda>c. c \<noteq> CHR ''/'') (rev f @ CHR ''/'' # rev xs)
      = dropWhile (\<lambda>c. c \<noteq> CHR ''/'') (CHR ''/'' # rev xs)"
    by (rule dropWhile_append2)
  then show ?thesis by simp
qed

lemma rstrip_sep_parent:
  assumes "parent \<noteq> []" "CHR ''/'' \<notin> set parent"
  shows "rstrip_sep (anc @ ''/'' @ parent @ ''/'') = anc @ ''/'' @ parent"
proof -
  obtain c cs where r: "rev parent = c # cs" using assms(1) by (cases "rev parent") simp_all
  have p: "parent = rev cs @ [c]" using arg_cong [OF r, of rev] by simp
  have "c \<in> set parent" by (simp add: p)
  then have "c \<noteq> CHR ''/''" using assms(2) by auto
  then show ?thesis by (simp add: rstrip_sep_def p)
qed

lemma dirname_parent:
  assumes "parent \<noteq> []" "CHR ''/'' \<notin> set parent" "CHR ''/'' \<notin> set f"
  shows "dirname (anc @ ''/'' @ parent @ ''/'' @ f) = anc @ ''/'' @ parent"
proof -
  have h: "rev (dropWhile (\<lambda>c. c \<noteq> CHR ''/'') (rev (anc @ ''/'' @ parent @ ''/'' @ f)))
      = anc @ ''/'' @ parent @ ''/''"
    using dirname_head [OF assms(3), of "anc @ ''/'' @ parent"] by simp
  obtain c where c: "c \<in> set parent" using assms(1) by (cases parent) auto
  then have ne: "c \<noteq> CHR ''/''" using assms(2) by auto
  have "c \<in> set (anc @ ''/'' @ parent @ ''/'')" using c by simp
  moreover have "c \<notin> set (replicate (length (anc @ ''/'' @ parent @ ''/'')) (CHR ''/''))"
    using ne by auto
  ultimately have "anc @ ''/'' @ parent @ ''/'' \<noteq> replicate (length (anc @ ''/'' @ parent @ ''/'')) (CHR ''/'')"
    by metis
  then show ?thesis
    unfolding dirname_def h Let_def
    using rstrip_sep_parent [OF assms(1,2), of anc] by simp
qed


text \<open>
  C10. The folder name is the basename of the immediate parent directory. For a path
  \<open>ancestors/parent/fname\<close>, where \<open>parent\<close> is not empty and neither \<open>parent\<close> nor
  \<open>fname\<close> contains a slash, the file name is \<open>fname\<close>, the folder name is \<open>parent\<close>,
  and the classifier's decision depends on the stream titles, \<open>fname\<close> and \<open>parent\<close>
  only: a pattern that occurs in \<open>ancestors\<close> alone produces no match.
\<close>

theorem folder_name_immediate_parent:
  "parent \<noteq> [] \<and> CHR ''/'' \<notin> set parent \<and> CHR ''/'' \<notin> set fname \<longrightarrow>
     basename (ancestors @ ''/'' @ parent @ ''/'' @ fname) = fname
   \<and> basename (dirname (ancestors @ ''/'' @ parent @ ''/'' @ fname)) = parent
   \<and> (fst (classify dbg (ancestors @ ''/'' @ parent @ ''/'' @ fname) pats ss w) \<longleftrightarrow>
        (\<exists>s \<in> set ss. any_pattern_in pats (stream_title s))
        \<or> any_pattern_in pats fname
        \<or> any_pattern_in pats parent)"
proof
  assume a: "parent \<noteq> [] \<and> CHR ''/'' \<notin> set parent \<and> CHR ''/'' \<notin> set fname"
  have b: "basename (ancestors @ ''/'' @ parent @ ''/'' @ fname) = fname"
    using basename_append [of fname "ancestors @ ''/'' @ parent"] a by simp
  have d: "basename (dirname (ancestors @ ''/'' @ parent @ ''/'' @ fname)) = parent"
    using dirname_parent [of parent fname ancestors] basename_append [of parent ancestors] a
    by simp
  show "basename (ancestors @ ''/'' @ parent @ ''/'' @ fname) = fname
   \<and> basename (dirname (ancestors @ ''/'' @ parent @ ''/'' @ fname)) = parent
   \<and> (fst (classify dbg (ancestors @ ''/'' @ parent @ ''/'' @ fname) pats ss w) \<longleftrightarrow>
        (\<exists>s \<in> set ss. any_pattern_in pats (stream_title s))
        \<or> any_pattern_in pats fname
        \<or> any_pattern_in pats parent)"
    unfolding classify_found b d by simp
qed

theorem folder_name_immediate_parent_witness:
  "''Foo'' \<noteq> [] \<and> CHR ''/'' \<notin> set ''Foo'' \<and> CHR ''/'' \<notin> set ''Movie.mkv''
   \<and> any_pattern_in [''German'', ''Deutsch'', ''DE'', ''De ''] ''German''
   \<and> basename (dirname ''German/Foo/Movie.mkv'') = ''Foo''
   \<and> \<not> fst (classify False ''German/Foo/Movie.mkv'' [''German'', ''Deutsch'', ''DE'', ''De ''] []
              empty_world)"
proof -
  have h: "''Foo'' \<noteq> [] \<and> CHR ''/'' \<notin> set ''Foo'' \<and> CHR ''/'' \<notin> set ''Movie.mkv''"
    by simp
  have g: "any_pattern_in [''German'', ''Deutsch'', ''DE'', ''De ''] ''German''" by code_simp
  have np: "\<not> any_pattern_in [''German'', ''Deutsch'', ''DE'', ''De ''] ''Foo''" by code_simp
  have nf: "\<not> any_pattern_in [''German'', ''Deutsch'', ''DE'', ''De ''] ''Movie.mkv''" by code_simp
  have e: "''German'' @ ''/'' @ ''Foo'' @ ''/'' @ ''Movie.mkv'' = ''German/Foo/Movie.mkv''" by simp
  note f = folder_name_immediate_parent [of "''Foo''" "''Movie.mkv''" "''German''" False
      "[''German'', ''Deutsch'', ''DE'', ''De '']" "[]" empty_world, unfolded e]
  have r: "basename (dirname ''German/Foo/Movie.mkv'') = ''Foo''
      \<and> \<not> fst (classify False ''German/Foo/Movie.mkv'' [''German'', ''Deutsch'', ''DE'', ''De ''] []
              empty_world)"
    using f h np nf by simp
  from h g r show ?thesis by (elim conjE) (intro conjI; assumption)
qed

subsection \<open>Processing a file\<close>

lemma config_de:
  "dict_get LANGUAGE_CONFIG language
     \<lparr>readable_name = ''German'', search_patterns = [''German'', ''Deutsch'', ''DE'', ''De ''],
      tags_to_add = [''German'', ''Deutsch'']\<rparr> =
     \<lparr>readable_name = ''German'', search_patterns = [''German'', ''Deutsch'', ''DE'', ''De ''],
      tags_to_add = [''German'', ''Deutsch'']\<rparr>"
  by (simp add: dict_get_def LANGUAGE_CONFIG_def)

lemma update_all_two:
  "update_all ext p [a, b] dry dbg w =
     (case update_nfo ext p a dry dbg w of
        Inl x \<Rightarrow> Inl x
      | Inr r1 \<Rightarrow>
          (case update_nfo ext p b dry dbg (world_after r1) of
             Inl x \<Rightarrow> Inl x
           | Inr r2 \<Rightarrow> Inr (world_after r2)))"
  by (simp split: sum.splits)

lemma process_video_file_unfold:
  "process_video_file ext fp dry dbg language w =
     (if fst (classify dbg fp [''German'', ''Deutsch'', ''DE'', ''De '']
                (fst (ffprobe_audio_tracks ext fp w)) (snd (ffprobe_audio_tracks ext fp w)))
      then
        (case update_nfo ext (path_join (dirname fp) ''movie.nfo'') ''German'' dry dbg
                (snd (classify dbg fp [''German'', ''Deutsch'', ''DE'', ''De '']
                        (fst (ffprobe_audio_tracks ext fp w))
                        (snd (ffprobe_audio_tracks ext fp w)))) of
           Inl x \<Rightarrow> Inl x
         | Inr r1 \<Rightarrow>
             (case update_nfo ext (path_join (dirname fp) ''movie.nfo'') ''Deutsch'' dry dbg
                     (world_after r1) of
                Inl x \<Rightarrow> Inl x
              | Inr r2 \<Rightarrow>
                  Inr (print_out (COLOR_GREEN @ ''German'' @ '' media found in '' @ fp
                                  @ COLOR_RESET) (world_after r2))))
      else
        Inr (print_out (COLOR_RED @ ''No '' @ ''German'' @ '' media found in '' @ fp
                        @ COLOR_RESET)
               (snd (classify dbg fp [''German'', ''Deutsch'', ''DE'', ''De '']
                       (fst (ffprobe_audio_tracks ext fp w))
                       (snd (ffprobe_audio_tracks ext fp w))))))"
proof -
  obtain ss w0 where p: "ffprobe_audio_tracks ext fp w = (ss, w0)"
    by (cases "ffprobe_audio_tracks ext fp w")
  obtain f w1 where c: "classify dbg fp [''German'', ''Deutsch'', ''DE'', ''De ''] ss w0 = (f, w1)"
    by (cases "classify dbg fp [''German'', ''Deutsch'', ''DE'', ''De ''] ss w0")
  show ?thesis
    unfolding process_video_file_def LANGUAGE_CONFIG_de
    by (simp add: config_de p c Let_def update_all_two split: sum.splits)
qed

lemma update_nfo_not_KeyError:
  "update_nfo ext p t dry dbg w \<noteq> Inl (KeyError, w')"
  by (auto simp: update_nfo_def load_root_def split: option.splits parse_outcome.splits)

lemma nested_not_KeyError:
  "(case update_nfo ext p a dry dbg w of
      Inl x \<Rightarrow> Inl x
    | Inr r1 \<Rightarrow>
        (case update_nfo ext p b dry dbg (world_after r1) of
           Inl x \<Rightarrow> Inl x
         | Inr r2 \<Rightarrow> Inr (g r2))) \<noteq> Inl (KeyError, w')"
proof (cases "update_nfo ext p a dry dbg w")
  case (Inl x)
  then show ?thesis using update_nfo_not_KeyError [of ext p a dry dbg w w'] by simp
next
  case r1: (Inr r1)
  show ?thesis
  proof (cases "update_nfo ext p b dry dbg (world_after r1)")
    case (Inl x)
    then show ?thesis
      using update_nfo_not_KeyError [of ext p b dry dbg "world_after r1" w'] r1 by simp
  next
    case (Inr r2)
    then show ?thesis using r1 by simp
  qed
qed

lemma fresh_insert_two:
  assumes "disk w p = None"
    and "ET_parse ext (ET_write ext (Element ''movie'' [] None None [Element ''tag'' [] (Some ''German'') None []]))
          = Parsed (Element ''movie'' [] None None [Element ''tag'' [] (Some ''German'') None []])"
  shows "\<exists>r1 r2. update_nfo ext p ''German'' False dbg w = Inr r1
           \<and> update_nfo ext p ''Deutsch'' False dbg (world_after r1) = Inr r2
           \<and> disk (world_after r2)
               = (disk w)(p \<mapsto> ET_write ext (Element ''movie'' [] None None
                   [Element ''tag'' [] (Some ''German'') None [],
                    Element ''tag'' [] (Some ''Deutsch'') None []]))"
proof -
  let ?doc1 = "Element ''movie'' [] None None [Element ''tag'' [] (Some ''German'') None []]"
  let ?r1 = "update_loaded ext p ''German'' False dbg w fresh_root"
  let ?r2 = "update_loaded ext p ''Deutsch'' False dbg (world_after ?r1) ?doc1"
  have l1: "load_root ext p w = Inr fresh_root" using assms(1) by (simp add: load_root_def)
  have n1: "\<not> tag_exists fresh_root ''German''"
    by (simp add: fresh_root_def tag_exists_def)
  have s1: "SubElement fresh_root ''tag'' ''German'' = ?doc1"
    by (simp add: fresh_root_def SubElement_def)
  have d2: "disk (world_after ?r1) = (disk w)(p \<mapsto> ET_write ext ?doc1)"
    using update_loaded_absent [OF n1, of ext p False dbg w] s1 by simp
  have l2: "load_root ext p (world_after ?r1) = Inr ?doc1"
    by (simp add: load_root_def d2 assms(2))
  have n2: "\<not> tag_exists ?doc1 ''Deutsch''"
    by (simp add: tag_exists_def)
  have s2: "SubElement ?doc1 ''tag'' ''Deutsch''
      = Element ''movie'' [] None None
               [Element ''tag'' [] (Some ''German'') None [], Element ''tag'' [] (Some ''Deutsch'') None []]"
    by (simp add: SubElement_def)
  have d3: "disk (world_after ?r2)
      = (disk w)(p \<mapsto> ET_write ext (Element ''movie'' [] None None
               [Element ''tag'' [] (Some ''German'') None [], Element ''tag'' [] (Some ''Deutsch'') None []]))"
    using update_loaded_absent [OF n2, of ext p False dbg "world_after ?r1"] s2 d2 by simp
  show ?thesis
    using update_nfo_loaded [OF l1, of "''German''" False dbg]
      update_nfo_loaded [OF l2, of "''Deutsch''" False dbg] d3 by blast
qed

lemma classify_no_streams:
  "fst (classify dbg fp pats [] w) \<longleftrightarrow>
     any_pattern_in pats (basename fp) \<or> any_pattern_in pats (basename (dirname fp))"
  by (simp add: classify_found)

lemma movie_de_paths:
  "basename ''Movies/Foo/Movie.DE.mkv'' = ''Movie.DE.mkv''"
  "dirname ''Movies/Foo/Movie.DE.mkv'' = ''Movies/Foo''"
  "path_join ''Movies/Foo'' ''movie.nfo'' = ''Movies/Foo/movie.nfo''"
  "str_contains ''Movie.DE.mkv'' ''DE''"
  "any_pattern_in [''German'', ''Deutsch'', ''DE'', ''De ''] ''Movie.DE.mkv''"
  by code_simp+

lemma movie_de_process:
  assumes "fst (ffprobe_audio_tracks ext ''Movies/Foo/Movie.DE.mkv'' w) = []"
  shows "process_video_file ext ''Movies/Foo/Movie.DE.mkv'' dry dbg language w =
     (case update_nfo ext ''Movies/Foo/movie.nfo'' ''German'' dry dbg
             (snd (classify dbg ''Movies/Foo/Movie.DE.mkv''
                     [''German'', ''Deutsch'', ''DE'', ''De ''] []
                     (snd (ffprobe_audio_tracks ext ''Movies/Foo/Movie.DE.mkv'' w)))) of
        Inl x \<Rightarrow> Inl x
      | Inr r1 \<Rightarrow>
          (case update_nfo ext ''Movies/Foo/movie.nfo'' ''Deutsch'' dry dbg (world_after r1) of
             Inl x \<Rightarrow> Inl x
           | Inr r2 \<Rightarrow>
               Inr (print_out (COLOR_GREEN @ ''German'' @ '' media found in ''
                               @ ''Movies/Foo/Movie.DE.mkv'' @ COLOR_RESET) (world_after r2))))"
proof -
  have f: "fst (classify dbg ''Movies/Foo/Movie.DE.mkv'' [''German'', ''Deutsch'', ''DE'', ''De ''] []
              (snd (ffprobe_audio_tracks ext ''Movies/Foo/Movie.DE.mkv'' w)))"
    unfolding classify_no_streams movie_de_paths(1) using movie_de_paths(5) by simp
  show ?thesis
    unfolding process_video_file_unfold [of ext "''Movies/Foo/Movie.DE.mkv''" dry dbg language w]
      assms movie_de_paths(2,3)
    using f by simp
qed

lemma movie_de_hot:
  assumes e: "fst (ffprobe_audio_tracks ext ''Movies/Foo/Movie.DE.mkv'' w) = []"
    and n: "disk w ''Movies/Foo/movie.nfo'' = None"
    and rt: "ET_parse ext (ET_write ext
                (Element ''movie'' [] None None [Element ''tag'' [] (Some ''German'') None []]))
              = Parsed (Element ''movie'' [] None None [Element ''tag'' [] (Some ''German'') None []])"
  shows "\<exists>w'. process_video_file ext ''Movies/Foo/Movie.DE.mkv'' False dbg language w = Inr w'
                 \<and> disk w' = (disk w)(''Movies/Foo/movie.nfo'' \<mapsto>
                      ET_write ext (Element ''movie'' [] None None
                        [Element ''tag'' [] (Some ''German'') None [],
                         Element ''tag'' [] (Some ''Deutsch'') None []]))"
proof -
  let ?w1 = "snd (classify dbg ''Movies/Foo/Movie.DE.mkv'' [''German'', ''Deutsch'', ''DE'', ''De ''] []
                    (snd (ffprobe_audio_tracks ext ''Movies/Foo/Movie.DE.mkv'' w)))"
  have d1: "disk ?w1 = disk w"
    by (simp add: classify_disk ffprobe_audio_tracks_disk)
  then have n1: "disk ?w1 ''Movies/Foo/movie.nfo'' = None" using n by simp
  from fresh_insert_two [OF n1 rt, of dbg] obtain r1 r2 where
    u1: "update_nfo ext ''Movies/Foo/movie.nfo'' ''German'' False dbg ?w1 = Inr r1"
    and u2: "update_nfo ext ''Movies/Foo/movie.nfo'' ''Deutsch'' False dbg (world_after r1) = Inr r2"
    and d: "disk (world_after r2)
               = (disk ?w1)(''Movies/Foo/movie.nfo'' \<mapsto> ET_write ext (Element ''movie'' [] None None
                   [Element ''tag'' [] (Some ''German'') None [],
                    Element ''tag'' [] (Some ''Deutsch'') None []]))"
    by blast
  show ?thesis
    unfolding movie_de_process [OF e, of False dbg language]
    by (simp add: u1 u2 d d1)
qed

text \<open>
  C9. An unknown language key falls back to the profile of \<open>de\<close>. For a key that the
  configuration does not have, the profile selected is the one selected for \<open>de\<close>, and
  \<open>process_video_file\<close> does what it does for \<open>de\<close>: it classifies with the patterns
  \<open>German\<close>, \<open>Deutsch\<close>, \<open>DE\<close> and \<open>De\<close> followed by a space; on a match it calls
  the updater for \<open>German\<close> and then for \<open>Deutsch\<close> on \<open>movie.nfo\<close> in the directory
  of the file and reports German media; without a match it reports that no German media
  was found. It never raises \<open>KeyError\<close>.
\<close>

theorem process_video_file_unknown_language:
  "LANGUAGE_CONFIG language = None \<longrightarrow>
     dict_get LANGUAGE_CONFIG language
       \<lparr>readable_name = ''German'', search_patterns = [''German'', ''Deutsch'', ''DE'', ''De ''],
        tags_to_add = [''German'', ''Deutsch'']\<rparr>
       = dict_get LANGUAGE_CONFIG ''de''
           \<lparr>readable_name = ''German'', search_patterns = [''German'', ''Deutsch'', ''DE'', ''De ''],
            tags_to_add = [''German'', ''Deutsch'']\<rparr>
   \<and> process_video_file ext fp dry dbg language w = process_video_file ext fp dry dbg ''de'' w
   \<and> process_video_file ext fp dry dbg language w =
       (if fst (classify dbg fp [''German'', ''Deutsch'', ''DE'', ''De '']
                  (fst (ffprobe_audio_tracks ext fp w)) (snd (ffprobe_audio_tracks ext fp w)))
        then
          (case update_nfo ext (path_join (dirname fp) ''movie.nfo'') ''German'' dry dbg
                  (snd (classify dbg fp [''German'', ''Deutsch'', ''DE'', ''De '']
                          (fst (ffprobe_audio_tracks ext fp w))
                          (snd (ffprobe_audio_tracks ext fp w)))) of
             Inl x \<Rightarrow> Inl x
           | Inr r1 \<Rightarrow>
               (case update_nfo ext (path_join (dirname fp) ''movie.nfo'') ''Deutsch'' dry dbg
                       (world_after r1) of
                  Inl x \<Rightarrow> Inl x
                | Inr r2 \<Rightarrow>
                    Inr (print_out (COLOR_GREEN @ ''German'' @ '' media found in '' @ fp
                                    @ COLOR_RESET) (world_after r2))))
        else
          Inr (print_out (COLOR_RED @ ''No '' @ ''German'' @ '' media found in '' @ fp
                          @ COLOR_RESET)
                 (snd (classify dbg fp [''German'', ''Deutsch'', ''DE'', ''De '']
                         (fst (ffprobe_audio_tracks ext fp w))
                         (snd (ffprobe_audio_tracks ext fp w))))))
   \<and> (\<forall>w'. process_video_file ext fp dry dbg language w \<noteq> Inl (KeyError, w'))"
proof (intro impI conjI allI)
  show "dict_get LANGUAGE_CONFIG language
       \<lparr>readable_name = ''German'', search_patterns = [''German'', ''Deutsch'', ''DE'', ''De ''],
        tags_to_add = [''German'', ''Deutsch'']\<rparr>
       = dict_get LANGUAGE_CONFIG ''de''
           \<lparr>readable_name = ''German'', search_patterns = [''German'', ''Deutsch'', ''DE'', ''De ''],
            tags_to_add = [''German'', ''Deutsch'']\<rparr>"
    by (simp only: config_de)
next
  show "process_video_file ext fp dry dbg language w = process_video_file ext fp dry dbg ''de'' w"
    by (simp only: process_video_file_unfold [of ext fp dry dbg language w]
        process_video_file_unfold [of ext fp dry dbg "''de''" w])
next
  show "process_video_file ext fp dry dbg language w =
       (if fst (classify dbg fp [''German'', ''Deutsch'', ''DE'', ''De '']
                  (fst (ffprobe_audio_tracks ext fp w)) (snd (ffprobe_audio_tracks ext fp w)))
        then
          (case update_nfo ext (path_join (dirname fp) ''movie.nfo'') ''German'' dry dbg
                  (snd (classify dbg fp [''German'', ''Deutsch'', ''DE'', ''De '']
                          (fst (ffprobe_audio_tracks ext fp w))
                          (snd (ffprobe_audio_tracks ext fp w)))) of
             Inl x \<Rightarrow> Inl x
           | Inr r1 \<Rightarrow>
               (case update_nfo ext (path_join (dirname fp) ''movie.nfo'') ''Deutsch'' dry dbg
                       (world_after r1) of
                  Inl x \<Rightarrow> Inl x
                | Inr r2 \<Rightarrow>
                    Inr (print_out (COLOR_GREEN @ ''German'' @ '' media found in '' @ fp
                                    @ COLOR_RESET) (world_after r2))))
        else
          Inr (print_out (COLOR_RED @ ''No '' @ ''German'' @ '' media found in '' @ fp
                          @ COLOR_RESET)
                 (snd (classify dbg fp [''German'', ''Deutsch'', ''DE'', ''De '']
                         (fst (ffprobe_audio_tracks ext fp w))
                         (snd (ffprobe_audio_tracks ext fp w))))))"
    by (rule process_video_file_unfold)
next
  fix w'
  show "process_video_file ext fp dry dbg language w \<noteq> Inl (KeyError, w')"
    unfolding process_video_file_unfold [of ext fp dry dbg language w]
    by (simp add: nested_not_KeyError)
qed

theorem process_video_file_unknown_language_witness:
  "LANGUAGE_CONFIG ''fr'' = None
   \<and> process_video_file (ideal_ext FileNotFoundError None) ''Movies/Foo/Movie.DE.mkv'' False False ''fr'' empty_world
     = process_video_file (ideal_ext FileNotFoundError None) ''Movies/Foo/Movie.DE.mkv'' False False ''de'' empty_world
   \<and> (\<exists>w'. process_video_file (ideal_ext FileNotFoundError None) ''Movies/Foo/Movie.DE.mkv'' False False ''fr'' empty_world
             = Inr w'
          \<and> disk w' ''Movies/Foo/movie.nfo'' =
              Some (Parsed (Element ''movie'' [] None None
                              [Element ''tag'' [] (Some ''German'') None [],
                               Element ''tag'' [] (Some ''Deutsch'') None []])))"
proof -
  let ?E = "ideal_ext FileNotFoundError None"
  have h: "LANGUAGE_CONFIG ''fr'' = None" by (simp add: LANGUAGE_CONFIG_def)
  note t = process_video_file_unknown_language [where language = "''fr''" and ext = ?E
        and fp = "''Movies/Foo/Movie.DE.mkv''" and dry = False and dbg = False and w = empty_world]
  have eq: "process_video_file ?E ''Movies/Foo/Movie.DE.mkv'' False False ''fr'' empty_world
     = process_video_file ?E ''Movies/Foo/Movie.DE.mkv'' False False ''de'' empty_world"
    using t h by blast
  have e: "fst (ffprobe_audio_tracks ?E ''Movies/Foo/Movie.DE.mkv'' empty_world) = []"
    by (simp add: ffprobe_audio_tracks_def ideal_ext_def)
  have n: "disk empty_world ''Movies/Foo/movie.nfo'' = None" by (simp add: empty_world_def)
  have rt: "ET_parse ?E (ET_write ?E
                (Element ''movie'' [] None None [Element ''tag'' [] (Some ''German'') None []]))
              = Parsed (Element ''movie'' [] None None [Element ''tag'' [] (Some ''German'') None []])"
    by (simp add: ideal_ext_ET)
  from movie_de_hot [OF e n rt, of False "''de''"] obtain w' where
    p: "process_video_file ?E ''Movies/Foo/Movie.DE.mkv'' False False ''de'' empty_world = Inr w'"
    and d: "disk w' = (disk empty_world)(''Movies/Foo/movie.nfo'' \<mapsto>
                      ET_write ?E (Element ''movie'' [] None None
                        [Element ''tag'' [] (Some ''German'') None [],
                         Element ''tag'' [] (Some ''Deutsch'') None []]))"
    by blast
  have x: "\<exists>w'. process_video_file ?E ''Movies/Foo/Movie.DE.mkv'' False False ''fr'' empty_world = Inr w'
          \<and> disk w' ''Movies/Foo/movie.nfo'' =
              Some (Parsed (Element ''movie'' [] None None
                              [Element ''tag'' [] (Some ''German'') None [],
                               Element ''tag'' [] (Some ''Deutsch'') None []]))"
    using eq p d by (simp add: ideal_ext_ET)
  show ?thesis by (intro conjI h eq x)
qed

text \<open>
  C5. Classification without stream metadata. With an empty list of streams the decision
  is made by the file name and the folder name alone. For \<open>Movies/Foo/Movie.DE.mkv\<close>
  with language \<open>de\<close> and no streams from the prober, the file name contains \<open>DE\<close>, and
  the updater is called on \<open>Movies/Foo/movie.nfo\<close> once for \<open>German\<close> and then once
  for \<open>Deutsch\<close>, an exception of either call leaving \<open>process_video_file\<close>. In a hot
  run on a disk without that sidecar, the sidecar ends as the serialisation of a \<open>movie\<close>
  element with the tag children \<open>German\<close> and \<open>Deutsch\<close>, given that the parser reads
  back the document the first call wrote.
\<close>

theorem movie_de_scenario:
  "(fst (classify dbg fp pats [] w) \<longleftrightarrow>
      any_pattern_in pats (basename fp) \<or> any_pattern_in pats (basename (dirname fp)))
   \<and> (fst (ffprobe_audio_tracks ext ''Movies/Foo/Movie.DE.mkv'' w) = [] \<longrightarrow>
        str_contains (basename ''Movies/Foo/Movie.DE.mkv'') ''DE''
      \<and> process_video_file ext ''Movies/Foo/Movie.DE.mkv'' dry dbg ''de'' w =
          (case update_nfo ext ''Movies/Foo/movie.nfo'' ''German'' dry dbg
                  (snd (classify dbg ''Movies/Foo/Movie.DE.mkv''
                          [''German'', ''Deutsch'', ''DE'', ''De ''] []
                          (snd (ffprobe_audio_tracks ext ''Movies/Foo/Movie.DE.mkv'' w)))) of
             Inl x \<Rightarrow> Inl x
           | Inr r1 \<Rightarrow>
               (case update_nfo ext ''Movies/Foo/movie.nfo'' ''Deutsch'' dry dbg (world_after r1) of
                  Inl x \<Rightarrow> Inl x
                | Inr r2 \<Rightarrow>
                    Inr (print_out (COLOR_GREEN @ ''German'' @ '' media found in ''
                                    @ ''Movies/Foo/Movie.DE.mkv'' @ COLOR_RESET) (world_after r2))))
      \<and> (disk w ''Movies/Foo/movie.nfo'' = None
          \<and> ET_parse ext (ET_write ext
                (Element ''movie'' [] None None [Element ''tag'' [] (Some ''German'') None []]))
              = Parsed (Element ''movie'' [] None None [Element ''tag'' [] (Some ''German'') None []])
          \<longrightarrow> (\<exists>w'. process_video_file ext ''Movies/Foo/Movie.DE.mkv'' False dbg ''de'' w = Inr w'
                 \<and> disk w' = (disk w)(''Movies/Foo/movie.nfo'' \<mapsto>
                      ET_write ext (Element ''movie'' [] None None
                        [Element ''tag'' [] (Some ''German'') None [],
                         Element ''tag'' [] (Some ''Deutsch'') None []])))))"
proof (intro conjI impI)
  show "fst (classify dbg fp pats [] w) \<longleftrightarrow>
      any_pattern_in pats (basename fp) \<or> any_pattern_in pats (basename (dirname fp))"
    by (rule classify_no_streams)
next
  show "str_contains (basename ''Movies/Foo/Movie.DE.mkv'') ''DE''"
    unfolding movie_de_paths(1) by (rule movie_de_paths(4))
next
  assume e: "fst (ffprobe_audio_tracks ext ''Movies/Foo/Movie.DE.mkv'' w) = []"
  then show "process_video_file ext ''Movies/Foo/Movie.DE.mkv'' dry dbg ''de'' w =
          (case update_nfo ext ''Movies/Foo/movie.nfo'' ''German'' dry dbg
                  (snd (classify dbg ''Movies/Foo/Movie.DE.mkv''
                          [''German'', ''Deutsch'', ''DE'', ''De ''] []
                          (snd (ffprobe_audio_tracks ext ''Movies/Foo/Movie.DE.mkv'' w)))) of
             Inl x \<Rightarrow> Inl x
           | Inr r1 \<Rightarrow>
               (case update_nfo ext ''Movies/Foo/movie.nfo'' ''Deutsch'' dry dbg (world_after r1) of
                  Inl x \<Rightarrow> Inl x
                | Inr r2 \<Rightarrow>
                    Inr (print_out (COLOR_GREEN @ ''German'' @ '' media found in ''
                                    @ ''Movies/Foo/Movie.DE.mkv'' @ COLOR_RESET) (world_after r2))))"
    by (rule movie_de_process)
next
  assume e: "fst (ffprobe_audio_tracks ext ''Movies/Foo/Movie.DE.mkv'' w) = []"
  assume a: "disk w ''Movies/Foo/movie.nfo'' = None
          \<and> ET_parse ext (ET_write ext
                (Element ''movie'' [] None None [Element ''tag'' [] (Some ''German'') None []]))
              = Parsed (Element ''movie'' [] None None [Element ''tag'' [] (Some ''German'') None []])"
  show "\<exists>w'. process_video_file ext ''Movies/Foo/Movie.DE.mkv'' False dbg ''de'' w = Inr w'
                 \<and> disk w' = (disk w)(''Movies/Foo/movie.nfo'' \<mapsto>
                      ET_write ext (Element ''movie'' [] None None
                        [Element ''tag'' [] (Some ''German'') None [],
                         Element ''tag'' [] (Some ''Deutsch'') None []]))"
    using movie_de_hot [OF e conjunct1 [OF a] conjunct2 [OF a]] by blast
qed

theorem movie_de_scenario_witness:
  "fst (ffprobe_audio_tracks (ideal_ext FileNotFoundError None) ''Movies/Foo/Movie.DE.mkv'' empty_world) = []
   \<and> disk empty_world ''Movies/Foo/movie.nfo'' = None
   \<and> ET_parse (ideal_ext FileNotFoundError None)
        (ET_write (ideal_ext FileNotFoundError None)
           (Element ''movie'' [] None None [Element ''tag'' [] (Some ''German'') None []]))
       = Parsed (Element ''movie'' [] None None [Element ''tag'' [] (Some ''German'') None []])
   \<and> (case process_video_file (ideal_ext FileNotFoundError None) ''Movies/Foo/Movie.DE.mkv''
              False False ''de'' empty_world of
         Inr w' \<Rightarrow>
           disk w' ''Movies/Foo/movie.nfo'' =
             Some (Parsed (Element ''movie'' [] None None
                           [Element ''tag'' [] (Some ''German'') None [],
                            Element ''tag'' [] (Some ''Deutsch'') None []]))
       | Inl e \<Rightarrow> False)"
proof -
  have h1: "fst (ffprobe_audio_tracks (ideal_ext FileNotFoundError None) ''Movies/Foo/Movie.DE.mkv'' empty_world) = []"
    by (simp add: ffprobe_audio_tracks_def ideal_ext_def)
  have h2: "disk empty_world ''Movies/Foo/movie.nfo'' = None"
    by (simp add: empty_world_def)
  have h3: "ET_parse (ideal_ext FileNotFoundError None)
        (ET_write (ideal_ext FileNotFoundError None)
           (Element ''movie'' [] None None [Element ''tag'' [] (Some ''German'') None []]))
       = Parsed (Element ''movie'' [] None None [Element ''tag'' [] (Some ''German'') None []])"
    by (simp add: ideal_ext_ET)
  note m = movie_de_scenario [where ext = "ideal_ext FileNotFoundError None" and w = empty_world
      and dbg = False and dry = False and fp = "''Movie.mkv''" and pats = "[]"]
  from m h1 h2 h3 obtain w' where
    p: "process_video_file (ideal_ext FileNotFoundError None) ''Movies/Foo/Movie.DE.mkv''
          False False ''de'' empty_world = Inr w'"
    and d: "disk w' = (disk empty_world)(''Movies/Foo/movie.nfo'' \<mapsto>
              ET_write (ideal_ext FileNotFoundError None) (Element ''movie'' [] None None
                        [Element ''tag'' [] (Some ''German'') None [],
                         Element ''tag'' [] (Some ''Deutsch'') None []]))"
    by blast
  have r: "(case process_video_file (ideal_ext FileNotFoundError None) ''Movies/Foo/Movie.DE.mkv''
              False False ''de'' empty_world of
         Inr w' \<Rightarrow>
           disk w' ''Movies/Foo/movie.nfo'' =
             Some (Parsed (Element ''movie'' [] None None
                           [Element ''tag'' [] (Some ''German'') None [],
                            Element ''tag'' [] (Some ''Deutsch'') None []]))
       | Inl e \<Rightarrow> False)"
    by (simp add: p d ideal_ext_ET)
  show ?thesis by (intro conjI h1 h2 h3 r)
qed

end
